theory Spec2Isabelle
  imports Complex_Main "HOL-Library.Word" "HOL-Library.Sublist"
begin

section \<open>Training utilities of hfsoftmax (utils.py)\<close>

text \<open>
  The functions of \<^verbatim>\<open>utils.py\<close> are embedded as HOL functions. An exception raised by
  the Python code is a value \<open>Inl e\<close> of the result, a normal return is \<open>Inr v\<close>.
  Output written with \<^verbatim>\<open>print\<close> is not part of the model; an exception raised while
  the arguments of a \<^verbatim>\<open>print\<close> are evaluated is.
\<close>

subsection \<open>Exceptions\<close>

datatype py_error =
    AssertionError string
  | ValueError string
  | KeyError string
  | NameError string
  | TypeError string
  | IndexError
  | AttributeError string
  | FileNotFoundError string
  | FileExistsError string
  | UnpicklingError
  | RuntimeError string
  | OverflowError string

subsection \<open>AverageMeter\<close>

text \<open>
  \<^verbatim>\<open>
  class AverageMeter(object):
      def __init__(self, length):
          self.length = length
          self.reset()
      def reset(self):
          self.history = []
          self.val = 0
          self.avg = 0
      def update(self, val):
          self.history.append(val)
          if len(self.history) > self.length:
              del self.history[0]
          self.val = self.history[-1]
          self.avg = np.mean(self.history)
  \<close>
  The values pushed are numbers; they are modelled as reals, so \<^verbatim>\<open>np.mean\<close> is the exact
  mean and the rounding of the float sum is not modelled. \<open>length\<close> is a Python integer
  and may be zero or negative.
\<close>

record meter =
  meter_length :: int
  history :: "real list"
  val :: real
  avg :: real

definition np_mean :: "real list \<Rightarrow> real" where
  "np_mean xs = sum_list xs / real (length xs)"

definition reset :: "meter \<Rightarrow> meter" where
  "reset m = m\<lparr>history := [], val := 0, avg := 0\<rparr>"

definition AverageMeter :: "int \<Rightarrow> meter" where
  "AverageMeter len = reset \<lparr>meter_length = len, history = [], val = 0, avg = 0\<rparr>"

text \<open>
  \<^verbatim>\<open>self.history[-1]\<close> raises IndexError on an empty list, which happens when
  \<open>length \<le> 0\<close>: the value appended is evicted at once.
\<close>

definition update :: "meter \<Rightarrow> real \<Rightarrow> py_error + meter" where
  "update m v =
     (let h = history m @ [v];
          h' = (if int (length h) > meter_length m then drop 1 h else h)
      in if h' = [] then Inl IndexError
         else Inr (m\<lparr>history := h', val := last h', avg := np_mean h'\<rparr>))"

text \<open>A sequence of updates; it stops at the first exception.\<close>

fun updates :: "meter \<Rightarrow> real list \<Rightarrow> py_error + meter" where
  "updates m [] = Inr m"
| "updates m (v # vs) =
     (case update m v of Inl e \<Rightarrow> Inl e | Inr m' \<Rightarrow> updates m' vs)"

text \<open>The state after any sequence of updates, in closed form.\<close>

definition meter_after :: "int \<Rightarrow> real list \<Rightarrow> meter" where
  "meter_after len vs =
     \<lparr>meter_length = len,
      history = drop (length vs - nat len) vs,
      val = (if vs = [] then 0 else last vs),
      avg = (if vs = [] then 0 else np_mean (drop (length vs - nat len) vs))\<rparr>"

subsection \<open>Arrays\<close>

text \<open>
  A numpy array of one or two dimensions: its shape and its elements in row-major
  order. A well-formed \<open>Arr2 n d xs\<close> has \<open>length xs = n * d\<close>; element \<open>(i, j)\<close> is
  \<open>xs ! (i * d + j)\<close>.
\<close>

datatype 'a ndarray = Arr1 "'a list" | Arr2 nat nat "'a list"

fun shape :: "'a ndarray \<Rightarrow> nat list" where
  "shape (Arr1 xs) = [length xs]"
| "shape (Arr2 n d xs) = [n, d]"

fun elements :: "'a ndarray \<Rightarrow> 'a list" where
  "elements (Arr1 xs) = xs"
| "elements (Arr2 n d xs) = xs"

subsection \<open>normalize\<close>

text \<open>
  \<^verbatim>\<open>
  def normalize(feat, axis=1):
      if len(feat.shape) == 1:
          return feat / np.linalg.norm(feat)
      if axis == 0:
          return feat / np.linalg.norm(feat, axis=0)
      elif axis == 1:
          return feat / np.linalg.norm(feat, axis=1)[:, np.newaxis]
  \<close>
  The function ends after the \<^verbatim>\<open>elif\<close>: for any other axis it returns Python's
  \<^verbatim>\<open>None\<close>, which is \<open>Inr None\<close> here. The elements are reals; float rounding and the
  \<^verbatim>\<open>nan\<close> and \<^verbatim>\<open>inf\<close> that numpy yields for a zero norm are not modelled.
\<close>

definition np_linalg_norm :: "real list \<Rightarrow> real" where
  "np_linalg_norm xs = sqrt (sum_list (map (\<lambda>x. x * x) xs))"

definition row :: "nat \<Rightarrow> real list \<Rightarrow> nat \<Rightarrow> real list" where
  "row d xs i = take d (drop (i * d) xs)"

definition col :: "nat \<Rightarrow> nat \<Rightarrow> real list \<Rightarrow> nat \<Rightarrow> real list" where
  "col n d xs j = map (\<lambda>i. xs ! (i * d + j)) [0..<n]"

text \<open>
  \<^verbatim>\<open>feat / np.linalg.norm(feat, axis=0)\<close> divides each column by its norm, and
  \<^verbatim>\<open>feat / np.linalg.norm(feat, axis=1)[:, np.newaxis]\<close> each row by its norm. Both are
  reached with a 2-D array only.
\<close>

definition divide_columns :: "real ndarray \<Rightarrow> real ndarray" where
  "divide_columns feat =
     (case feat of
        Arr2 n d xs \<Rightarrow>
          Arr2 n d (concat (map (\<lambda>i. map (\<lambda>j. xs ! (i * d + j) /
            np_linalg_norm (col n d xs j)) [0..<d]) [0..<n]))
      | Arr1 xs \<Rightarrow> feat)"

definition divide_rows :: "real ndarray \<Rightarrow> real ndarray" where
  "divide_rows feat =
     (case feat of
        Arr2 n d xs \<Rightarrow>
          Arr2 n d (concat (map (\<lambda>i. map (\<lambda>j. xs ! (i * d + j) /
            np_linalg_norm (row d xs i)) [0..<d]) [0..<n]))
      | Arr1 xs \<Rightarrow> feat)"

definition normalize :: "real ndarray \<Rightarrow> int \<Rightarrow> py_error + real ndarray option" where
  "normalize feat axis =
     (if length (shape feat) = 1 then
        Inr (Some (Arr1 (map (\<lambda>x. x / np_linalg_norm (elements feat)) (elements feat))))
      else if axis = 0 then Inr (Some (divide_columns feat))
      else if axis = 1 then Inr (Some (divide_rows feat))
      else Inr None)"

subsection \<open>Files and directories\<close>

text \<open>
  The file system: the directories that exist and the content of each file, by path.
  Writing a file always succeeds; failures of the environment (permissions, a full
  disk) are not modelled. \<^verbatim>\<open>os.makedirs\<close> fails on the empty path and on a path that
  exists; the model records the directory made, which is the only one the code asks
  for afterwards.
\<close>

record 'c filesystem =
  dirs :: "string set"
  files :: "string \<rightharpoonup> 'c"

definition os_path_isfile :: "'c filesystem \<Rightarrow> string \<Rightarrow> bool" where
  "os_path_isfile fs p = (files fs p \<noteq> None)"

definition os_path_exists :: "'c filesystem \<Rightarrow> string \<Rightarrow> bool" where
  "os_path_exists fs p = (p \<in> dirs fs \<or> files fs p \<noteq> None)"

definition os_makedirs :: "'c filesystem \<Rightarrow> string \<Rightarrow> py_error + 'c filesystem" where
  "os_makedirs fs p =
     (if p = [] then Inl (FileNotFoundError p)
      else if os_path_exists fs p then Inl (FileExistsError p)
      else Inr (fs\<lparr>dirs := insert p (dirs fs)\<rparr>))"

text \<open>\<^verbatim>\<open>os.path.join(a, b)\<close> and \<^verbatim>\<open>os.path.dirname(p)\<close> of posixpath.\<close>

definition os_path_join :: "string \<Rightarrow> string \<Rightarrow> string" where
  "os_path_join a b =
     (if b \<noteq> [] \<and> hd b = CHR ''/'' then b
      else if a = [] \<or> last a = CHR ''/'' then a @ b
      else a @ ''/'' @ b)"

definition rstrip_sep :: "string \<Rightarrow> string" where
  "rstrip_sep s = rev (dropWhile (\<lambda>c. c = CHR ''/'') (rev s))"

definition os_path_dirname :: "string \<Rightarrow> string" where
  "os_path_dirname p =
     (let head = rev (dropWhile (\<lambda>c. c \<noteq> CHR ''/'') (rev p))
      in if head \<noteq> [] \<and> list_ex (\<lambda>c. c \<noteq> CHR ''/'') head then rstrip_sep head else head)"

text \<open>\<^verbatim>\<open>"{}".format(i)\<close> for a natural number: its decimal digits.\<close>

function str_of_nat :: "nat \<Rightarrow> string" where
  "str_of_nat n =
     (if n < 10 then [''0123456789'' ! n]
      else str_of_nat (n div 10) @ [''0123456789'' ! (n mod 10)])"
  by pat_completeness auto
termination
  by (relation "measure id") auto

declare str_of_nat.simps [simp del]

subsection \<open>save_imgs\<close>

text \<open>
  \<^verbatim>\<open>
  def save_imgs(imgs, ofolder):
      for i, img in enumerate(imgs):
          opath = os.path.join(ofolder, "{}.jpg".format(i))
          if not os.path.exists(os.path.dirname(opath)):
              print(opath)
              os.makedirs(os.path.dirname(opath))
          img.save(opath, "JPEG")
      else:
          raise TypeError(
              'axis value should be 0 or 1(cannot handel axis {})'.format(axis))
  \<close>
  The \<^verbatim>\<open>else\<close> of a \<^verbatim>\<open>for\<close> runs when the loop ends without \<^verbatim>\<open>break\<close>, and this loop
  has none. The argument of \<^verbatim>\<open>TypeError\<close> reads the name \<^verbatim>\<open>axis\<close>, which is bound
  neither in the function nor in the module, so its evaluation raises NameError before
  the TypeError is built. The result is the outcome together with the file system, which
  keeps the files written before the exception.
\<close>

definition img_save :: "'i filesystem \<Rightarrow> string \<Rightarrow> 'i \<Rightarrow> 'i filesystem" where
  "img_save fs opath img = fs\<lparr>files := (files fs)(opath \<mapsto> img)\<rparr>"

fun save_imgs_loop ::
  "'i filesystem \<Rightarrow> string \<Rightarrow> nat \<Rightarrow> 'i list \<Rightarrow> (py_error + unit) \<times> 'i filesystem" where
  "save_imgs_loop fs ofolder i [] = (Inr (), fs)"
| "save_imgs_loop fs ofolder i (img # imgs) =
     (let opath = os_path_join ofolder (str_of_nat i @ ''.jpg'')
      in case (if \<not> os_path_exists fs (os_path_dirname opath)
               then os_makedirs fs (os_path_dirname opath) else Inr fs) of
           Inl e \<Rightarrow> (Inl e, fs)
         | Inr fs' \<Rightarrow> save_imgs_loop (img_save fs' opath img) ofolder (Suc i) imgs)"

definition save_imgs ::
  "'i filesystem \<Rightarrow> 'i list \<Rightarrow> string \<Rightarrow> (py_error + unit) \<times> 'i filesystem" where
  "save_imgs fs imgs ofolder =
     (case save_imgs_loop fs ofolder 0 imgs of
        (Inl e, fs') \<Rightarrow> (Inl e, fs')
      | (Inr u, fs') \<Rightarrow> (Inl (NameError ''axis''), fs'))"

subsection \<open>Feature files\<close>

text \<open>
  \<^verbatim>\<open>
  def read_feat(path, inst_num, feat_dim, dtype=np.float32, verbose=False):
      assert (inst_num > 0 or inst_num == -1) and feat_dim > 0
      count = -1
      if inst_num > 0:
          count = inst_num * feat_dim
      probs = np.fromfile(path, dtype=dtype, count=count)
      if feat_dim > 1:
          probs = probs.reshape(inst_num, feat_dim)
      if verbose:
          print('[{}] shape: {}'.format(path, probs.shape))
      return probs

  def write_feat(ofn, features):
      print('save features to', ofn)
      features.tofile(ofn)
  \<close>
  An element of a fixed-width type is its bit pattern, a word of that width; the
  \<^verbatim>\<open>dtype\<close> argument is the type \<open>'a\<close> of the words. A file is a list of bytes.
  \<^verbatim>\<open>tofile\<close> writes the elements in row-major order, each as its bytes, lowest first,
  with no header. \<^verbatim>\<open>fromfile\<close> reads whole elements: \<^verbatim>\<open>count\<close> of them, or as many as
  the file holds when it holds fewer or when \<^verbatim>\<open>count\<close> is negative; a short file is no
  error for it. \<^verbatim>\<open>reshape\<close> raises ValueError when the sizes do not agree; \<open>-1\<close> for the
  number of rows asks numpy to infer it.

  Python integers are unbounded, numpy's counts and dimensions are the signed 64-bit
  \<^verbatim>\<open>ssize_t\<close>: a \<^verbatim>\<open>count\<close> or a dimension outside its range raises OverflowError when the
  argument is converted, before the file is opened, and an array whose bytes would
  number more than its greatest value is refused with ValueError. Below these limits
  the buffer for \<^verbatim>\<open>count\<close> elements is taken to be available; running out of memory
  is a failure of the environment and is not modelled.
\<close>

type_synonym byte = "8 word"

fun word_to_bytes :: "nat \<Rightarrow> 'a::len word \<Rightarrow> byte list" where
  "word_to_bytes 0 w = []"
| "word_to_bytes (Suc k) w = ucast w # word_to_bytes k (drop_bit 8 w)"

fun bytes_to_word :: "byte list \<Rightarrow> 'a::len word" where
  "bytes_to_word [] = 0"
| "bytes_to_word (b # bs) = or (ucast b) (push_bit 8 (bytes_to_word bs))"

text \<open>The bytes of an element: 2, 4 and 8 for float16, float32 and float64.\<close>

definition itemsize :: "'a::len word \<Rightarrow> nat" where
  "itemsize w = (LENGTH('a) + 7) div 8"

definition ndarray_tofile ::
  "byte list filesystem \<Rightarrow> string \<Rightarrow> 'a::len word ndarray \<Rightarrow> byte list filesystem" where
  "ndarray_tofile fs ofn a =
     fs\<lparr>files := (files fs)(ofn \<mapsto>
       concat (map (\<lambda>w. word_to_bytes (itemsize w) w) (elements a)))\<rparr>"

definition ssize_max :: int where
  "ssize_max = 2 ^ 63 - 1"

text \<open>The first \<open>num\<close> elements that the bytes \<open>bs\<close> hold, in the order of the file.\<close>

definition read_items :: "nat \<Rightarrow> byte list \<Rightarrow> 'a::len word list" where
  "read_items num bs =
     (let sz = itemsize (0 :: 'a word)
      in map (\<lambda>i. bytes_to_word (take sz (drop (i * sz) bs))) [0..<num])"

definition np_fromfile ::
  "byte list filesystem \<Rightarrow> string \<Rightarrow> int \<Rightarrow> py_error + 'a::len word ndarray" where
  "np_fromfile fs path count =
     (if count < - ssize_max - 1 \<or> ssize_max < count then Inl (OverflowError ''count'')
      else
        case files fs path of
          None \<Rightarrow> Inl (FileNotFoundError path)
        | Some bs \<Rightarrow>
            let sz = itemsize (0 :: 'a word);
                avail = length bs div sz
            in if 0 \<le> count \<and> ssize_max < count * int sz
               then Inl (ValueError ''array is too big'')
               else
                 let num = (if count < 0 then avail else min (nat count) avail)
                 in Inr (Arr1 (read_items num bs)))"

definition reshape :: "'a ndarray \<Rightarrow> int \<Rightarrow> int \<Rightarrow> py_error + 'a ndarray" where
  "reshape a n d =
     (let size = int (length (elements a))
      in if n < - ssize_max - 1 \<or> ssize_max < n \<or> d < - ssize_max - 1 \<or> ssize_max < d
         then Inl (OverflowError ''shape'')
         else if n = -1 then
           (if 0 < d \<and> size mod d = 0 then Inr (Arr2 (nat (size div d)) (nat d) (elements a))
            else Inl (ValueError ''cannot reshape array''))
         else if 0 \<le> n \<and> 0 \<le> d \<and> n * d = size then Inr (Arr2 (nat n) (nat d) (elements a))
         else Inl (ValueError ''cannot reshape array''))"

definition read_feat ::
  "byte list filesystem \<Rightarrow> string \<Rightarrow> int \<Rightarrow> int \<Rightarrow> py_error + 'a::len word ndarray" where
  "read_feat fs path inst_num feat_dim =
     (if \<not> ((inst_num > 0 \<or> inst_num = -1) \<and> feat_dim > 0) then Inl (AssertionError [])
      else
        let count = (if inst_num > 0 then inst_num * feat_dim else -1)
        in case np_fromfile fs path count of
             Inl e \<Rightarrow> Inl e
           | Inr probs \<Rightarrow>
               if feat_dim > 1 then reshape probs inst_num feat_dim else Inr probs)"

definition write_feat ::
  "byte list filesystem \<Rightarrow> string \<Rightarrow> 'a::len word ndarray \<Rightarrow> byte list filesystem" where
  "write_feat fs ofn features = ndarray_tofile fs ofn features"

subsection \<open>Python dictionaries and strings\<close>

text \<open>
  A dictionary is the list of its items in insertion order; a well-formed one has
  distinct keys. \<^verbatim>\<open>d[k]\<close> and \<^verbatim>\<open>del d[k]\<close> raise KeyError when \<open>k\<close> is not a key.
\<close>

type_synonym ('k, 'v) dict = "('k \<times> 'v) list"

definition dict_keys :: "('k, 'v) dict \<Rightarrow> 'k list" where
  "dict_keys d = map fst d"

definition dict_getitem :: "(string, 'v) dict \<Rightarrow> string \<Rightarrow> py_error + 'v" where
  "dict_getitem d k = (case map_of d k of None \<Rightarrow> Inl (KeyError k) | Some v \<Rightarrow> Inr v)"

definition dict_delitem :: "(string, 'v) dict \<Rightarrow> string \<Rightarrow> py_error + (string, 'v) dict" where
  "dict_delitem d k =
     (if k \<in> set (dict_keys d) then Inr (filter (\<lambda>kv. fst kv \<noteq> k) d) else Inl (KeyError k))"

definition dict_setitem :: "(string, 'v) dict \<Rightarrow> string \<Rightarrow> 'v \<Rightarrow> (string, 'v) dict" where
  "dict_setitem d k v =
     (if k \<in> set (dict_keys d) then map (\<lambda>kv. if fst kv = k then (k, v) else kv) d
      else d @ [(k, v)])"

text \<open>\<^verbatim>\<open>s.find(sub)\<close>: the lowest index where \<open>sub\<close> occurs in \<open>s\<close>, or \<open>-1\<close>.\<close>

fun str_find :: "string \<Rightarrow> string \<Rightarrow> int" where
  "str_find [] sub = (if sub = [] then 0 else -1)"
| "str_find (c # s) sub =
     (if prefix sub (c # s) then 0
      else let r = str_find s sub in if r < 0 then -1 else r + 1)"

subsection \<open>Checkpoints\<close>

text \<open>
  A checkpoint is a dictionary; the value under \<^verbatim>\<open>state_dict\<close> is itself a dictionary,
  from parameter names to tensors, and the other values (optimizer state, epoch, best
  score) are opaque. A file holds either an object that \<^verbatim>\<open>torch.load\<close> can read back or
  something else. The model and the optimizer are objects that carry their own
  \<^verbatim>\<open>load_state_dict\<close> method; nothing is assumed about what the methods do.
\<close>

datatype ('t, 'o) ckpt_value = StateDict "(string, 't) dict" | Other 'o

type_synonym ('t, 'o) checkpoint = "(string, ('t, 'o) ckpt_value) dict"

datatype 'c torch_file = Pickled 'c | NotPickled

record ('m, 't, 'o) nn_module =
  module_state :: 'm
  module_load_state_dict :: "'m \<Rightarrow> ('t, 'o) ckpt_value \<Rightarrow> bool \<Rightarrow> py_error + 'm"

record ('p, 't, 'o) optimizer =
  optim_state :: 'p
  optim_load_state_dict :: "'p \<Rightarrow> ('t, 'o) ckpt_value \<Rightarrow> py_error + 'p"

definition torch_load :: "'c torch_file filesystem \<Rightarrow> string \<Rightarrow> py_error + 'c" where
  "torch_load fs path =
     (case files fs path of
        None \<Rightarrow> Inl (FileNotFoundError path)
      | Some NotPickled \<Rightarrow> Inl UnpicklingError
      | Some (Pickled c) \<Rightarrow> Inr c)"

definition torch_save :: "'c torch_file filesystem \<Rightarrow> 'c \<Rightarrow> string \<Rightarrow> 'c torch_file filesystem" where
  "torch_save fs obj path = fs\<lparr>files := (files fs)(path \<mapsto> Pickled obj)\<rparr>"

text \<open>\<^verbatim>\<open>v.keys()\<close> of a checkpoint value: only a dictionary has the method.\<close>

definition value_keys :: "('t, 'o) ckpt_value \<Rightarrow> py_error + string list" where
  "value_keys v =
     (case v of StateDict sd \<Rightarrow> Inr (dict_keys sd) | Other x \<Rightarrow> Inl (AttributeError ''keys''))"

definition not_found_message :: "string \<Rightarrow> string" where
  "not_found_message ignore = ''cannot find '' @ ignore @ '' in load_path''"

definition no_checkpoint_message :: "string \<Rightarrow> string" where
  "no_checkpoint_message path = ''=> no checkpoint found at '' @ [CHR 0x27] @ path @ [CHR 0x27]"

subsection \<open>load_ckpt\<close>

text \<open>
  \<^verbatim>\<open>
  def load_ckpt(path, model, ignores=[], strict=True, optimizer=None):
      if os.path.isfile(path):
          checkpoint = torch.load(path, map_location=map_func)
          if len(ignores) > 0:
              assert optimizer == None
              keys = set(checkpoint['state_dict'].keys())
              for ignore in ignores:
                  if ignore in keys:
                      print('ignoring {}'.format(ignore))
                      del checkpoint['state_dict'][ignore]
                  else:
                      raise ValueError(
                          'cannot find {} in load_path'.format(ignore))
          model.load_state_dict(checkpoint['state_dict'], strict=strict)
          if not strict:
              pretrained_keys = set(checkpoint['state_dict'].keys())
              model_keys = set([k for k, _ in model.named_parameters()])
              for k in model_keys - pretrained_keys:
                  print('warning: {} not loaded'.format(k))
          if optimizer != None:
              assert len(ignores) == 0
              optimizer.load_state_dict(checkpoint['optimizer'])
              print("=> loaded checkpoint '{}' (step {})".format(
                  path, checkpoint['epoch']))
              return checkpoint['epoch'], checkpoint['best_prec1']
      else:
          assert False, "=> no checkpoint found at '{}'".format(path)
  \<close>
  \<open>keys\<close> is taken once, before the loop, and is not updated by the deletions. The loop
  deletes from the dictionary under \<^verbatim>\<open>state_dict\<close>, which the checkpoint shares; the model
  threads that dictionary through the loop and stores it back. A call that ends without
  \<^verbatim>\<open>return\<close> gives \<^verbatim>\<open>None\<close>. The result of a successful call is the value returned
  together with the model and the optimizer as the call leaves them. In the block for
  \<^verbatim>\<open>not strict\<close>, which only prints warnings, \<^verbatim>\<open>model.named_parameters()\<close> is taken to
  return; reading the keys of \<^verbatim>\<open>checkpoint['state_dict']\<close> can raise and is modelled.
\<close>

fun load_drop_ignores ::
  "string list \<Rightarrow> string list \<Rightarrow> (string, 't) dict \<Rightarrow> py_error + (string, 't) dict" where
  "load_drop_ignores keys [] sd = Inr sd"
| "load_drop_ignores keys (ignore # ignores) sd =
     (if ignore \<in> set keys then
        (case dict_delitem sd ignore of
           Inl e \<Rightarrow> Inl e
         | Inr sd' \<Rightarrow> load_drop_ignores keys ignores sd')
      else Inl (ValueError (not_found_message ignore)))"

text \<open>The body of \<^verbatim>\<open>if len(ignores) > 0\<close>.\<close>

definition load_ignores_block ::
  "('t, 'o) checkpoint \<Rightarrow> string list \<Rightarrow> ('p, 't, 'o) optimizer option \<Rightarrow>
   py_error + ('t, 'o) checkpoint" where
  "load_ignores_block checkpoint ignores optimizer =
     (if optimizer \<noteq> None then Inl (AssertionError [])
      else
        case dict_getitem checkpoint ''state_dict'' of
          Inl e \<Rightarrow> Inl e
        | Inr (Other x) \<Rightarrow> Inl (AttributeError ''keys'')
        | Inr (StateDict sd) \<Rightarrow>
            (case load_drop_ignores (dict_keys sd) ignores sd of
               Inl e \<Rightarrow> Inl e
             | Inr sd' \<Rightarrow> Inr (dict_setitem checkpoint ''state_dict'' (StateDict sd'))))"

text \<open>The body of \<^verbatim>\<open>if optimizer != None\<close>; \<open>opt\<close> is the optimizer supplied.\<close>

definition load_optimizer_block ::
  "('t, 'o) checkpoint \<Rightarrow> string list \<Rightarrow> ('p, 't, 'o) optimizer \<Rightarrow>
   py_error + ((('t, 'o) ckpt_value \<times> ('t, 'o) ckpt_value) \<times> ('p, 't, 'o) optimizer)" where
  "load_optimizer_block checkpoint ignores opt =
     (if length ignores \<noteq> 0 then Inl (AssertionError [])
      else
        (case dict_getitem checkpoint ''optimizer'' of
           Inl e \<Rightarrow> Inl e
         | Inr ov \<Rightarrow>
        (case optim_load_state_dict opt (optim_state opt) ov of
           Inl e \<Rightarrow> Inl e
         | Inr p' \<Rightarrow>
        (case dict_getitem checkpoint ''epoch'' of
           Inl e \<Rightarrow> Inl e
         | Inr epoch \<Rightarrow>
        (case dict_getitem checkpoint ''best_prec1'' of
           Inl e \<Rightarrow> Inl e
         | Inr best_prec1 \<Rightarrow> Inr ((epoch, best_prec1), opt\<lparr>optim_state := p'\<rparr>))))))"

definition load_ckpt ::
  "('t, 'o) checkpoint torch_file filesystem \<Rightarrow> string \<Rightarrow> ('m, 't, 'o) nn_module \<Rightarrow>
   string list \<Rightarrow> bool \<Rightarrow> ('p, 't, 'o) optimizer option \<Rightarrow>
   py_error + ((('t, 'o) ckpt_value \<times> ('t, 'o) ckpt_value) option
               \<times> ('m, 't, 'o) nn_module \<times> ('p, 't, 'o) optimizer option)" where
  "load_ckpt fs path model ignores strict optimizer =
     (if os_path_isfile fs path then
        (case torch_load fs path of
           Inl e \<Rightarrow> Inl e
         | Inr checkpoint0 \<Rightarrow>
        (case (if length ignores > 0 then load_ignores_block checkpoint0 ignores optimizer
               else Inr checkpoint0) of
           Inl e \<Rightarrow> Inl e
         | Inr checkpoint \<Rightarrow>
        (case dict_getitem checkpoint ''state_dict'' of
           Inl e \<Rightarrow> Inl e
         | Inr v \<Rightarrow>
        (case module_load_state_dict model (module_state model) v strict of
           Inl e \<Rightarrow> Inl e
         | Inr m' \<Rightarrow>
        (case (if \<not> strict then value_keys v else Inr []) of
           Inl e \<Rightarrow> Inl e
         | Inr pretrained_keys \<Rightarrow>
            (case optimizer of
               Some opt \<Rightarrow>
                 (case load_optimizer_block checkpoint ignores opt of
                    Inl e \<Rightarrow> Inl e
                  | Inr (ret, opt') \<Rightarrow> Inr (Some ret, model\<lparr>module_state := m'\<rparr>, Some opt'))
             | None \<Rightarrow> Inr (None, model\<lparr>module_state := m'\<rparr>, None)))))))
      else Inl (AssertionError (no_checkpoint_message path)))"

subsection \<open>simplify_ckpt\<close>

text \<open>
  \<^verbatim>\<open>
  def simplify_ckpt(path, opath='', ignores=[]):
      if os.path.isfile(path):
          checkpoint = torch.load(path, map_location=map_func)
          keys = list(checkpoint.keys())
          for key in keys:
              if key == 'state_dict':
                  continue
              del checkpoint[key]
          if len(ignores) >= 0:
              keys = set(checkpoint['state_dict'].keys())
              for ignore in ignores:
                  if ignore in keys:
                      print('ignoring {}'.format(ignore))
                      del checkpoint['state_dict'][ignore]
                  else:
                      for k in keys:
                          if k.find('base') < 0:
                              print(k, checkpoint['state_dict'][k].shape)
                      raise ValueError(
                          'cannot find {} in load_path'.format(ignore))
          if opath == '':
              opath = path + '_simplified'
          torch.save(checkpoint, opath)
      else:
          assert False, "=> no checkpoint found at '{}'".format(path)
  \<close>
  Before it raises, the inner loop prints the shape of every parameter whose name has no
  \<^verbatim>\<open>base\<close> in it, reading it from the dictionary from which the earlier ignores are gone
  already. Python walks the set \<open>keys\<close> in an order of its own; the model walks the keys in
  the order of the dictionary, and no property below depends on the order.
\<close>

fun strip_keys ::
  "string list \<Rightarrow> (string, 'v) dict \<Rightarrow> py_error + (string, 'v) dict" where
  "strip_keys [] checkpoint = Inr checkpoint"
| "strip_keys (key # keys) checkpoint =
     (if key = ''state_dict'' then strip_keys keys checkpoint
      else case dict_delitem checkpoint key of
             Inl e \<Rightarrow> Inl e
           | Inr checkpoint' \<Rightarrow> strip_keys keys checkpoint')"

fun print_shapes :: "string list \<Rightarrow> (string, 't) dict \<Rightarrow> py_error + unit" where
  "print_shapes [] sd = Inr ()"
| "print_shapes (k # keys) sd =
     (if str_find k ''base'' < 0 then
        (case dict_getitem sd k of Inl e \<Rightarrow> Inl e | Inr t \<Rightarrow> print_shapes keys sd)
      else print_shapes keys sd)"

fun simplify_drop_ignores ::
  "string list \<Rightarrow> string list \<Rightarrow> (string, 't) dict \<Rightarrow> py_error + (string, 't) dict" where
  "simplify_drop_ignores keys [] sd = Inr sd"
| "simplify_drop_ignores keys (ignore # ignores) sd =
     (if ignore \<in> set keys then
        (case dict_delitem sd ignore of
           Inl e \<Rightarrow> Inl e
         | Inr sd' \<Rightarrow> simplify_drop_ignores keys ignores sd')
      else
        (case print_shapes keys sd of
           Inl e \<Rightarrow> Inl e
         | Inr u \<Rightarrow> Inl (ValueError (not_found_message ignore))))"

text \<open>The body of \<^verbatim>\<open>if len(ignores) >= 0\<close>.\<close>

definition simplify_ignores_block ::
  "('t, 'o) checkpoint \<Rightarrow> string list \<Rightarrow> py_error + ('t, 'o) checkpoint" where
  "simplify_ignores_block checkpoint ignores =
     (case dict_getitem checkpoint ''state_dict'' of
        Inl e \<Rightarrow> Inl e
      | Inr (Other x) \<Rightarrow> Inl (AttributeError ''keys'')
      | Inr (StateDict sd) \<Rightarrow>
          (case simplify_drop_ignores (dict_keys sd) ignores sd of
             Inl e \<Rightarrow> Inl e
           | Inr sd' \<Rightarrow> Inr (dict_setitem checkpoint ''state_dict'' (StateDict sd'))))"

definition simplify_ckpt ::
  "('t, 'o) checkpoint torch_file filesystem \<Rightarrow> string \<Rightarrow> string \<Rightarrow> string list \<Rightarrow>
   py_error + ('t, 'o) checkpoint torch_file filesystem" where
  "simplify_ckpt fs path opath ignores =
     (if os_path_isfile fs path then
        (case torch_load fs path of
           Inl e \<Rightarrow> Inl e
         | Inr checkpoint0 \<Rightarrow>
        (case strip_keys (dict_keys checkpoint0) checkpoint0 of
           Inl e \<Rightarrow> Inl e
         | Inr checkpoint1 \<Rightarrow>
        (case (if int (length ignores) \<ge> 0 then simplify_ignores_block checkpoint1 ignores
               else Inr checkpoint1) of
           Inl e \<Rightarrow> Inl e
         | Inr checkpoint \<Rightarrow>
            Inr (torch_save fs checkpoint
                   (if opath = [] then path @ ''_simplified'' else opath)))))
      else Inl (AssertionError (no_checkpoint_message path)))"

subsection \<open>Sample objects\<close>

text \<open>
  A checkpoint file, a model and an optimizer on which the functions are run below.
  Tensors are stood for by numbers. The model keeps the parameters it is given and
  the optimizer the state it is given; each rejects a value of the wrong kind.
\<close>

definition sample_ckpt :: "(nat, int) checkpoint" where
  "sample_ckpt =
     [(''state_dict'', StateDict [(''base.weight'', 1), (''fc.weight'', 2)]),
      (''optimizer'', Other 7), (''epoch'', Other 3), (''best_prec1'', Other 90)]"

definition sample_fs :: "(nat, int) checkpoint torch_file filesystem" where
  "sample_fs = \<lparr>dirs = {}, files = [''ckpt.pth'' \<mapsto> Pickled sample_ckpt]\<rparr>"

definition sample_model :: "((string, nat) dict, nat, int) nn_module" where
  "sample_model =
     \<lparr>module_state = [],
      module_load_state_dict = (\<lambda>m v strict.
        case v of StateDict sd \<Rightarrow> Inr sd | Other x \<Rightarrow> Inl (TypeError ''state_dict''))\<rparr>"

definition sample_optimizer :: "(int, nat, int) optimizer" where
  "sample_optimizer =
     \<lparr>optim_state = 0,
      optim_load_state_dict = (\<lambda>p v.
        case v of Other x \<Rightarrow> Inr x | StateDict sd \<Rightarrow> Inl (TypeError ''optimizer''))\<rparr>"

section \<open>Properties\<close>

subsection \<open>AverageMeter keeps the last \<open>length\<close> values\<close>

lemma updates_append:
  "updates m (vs @ ws) =
     (case updates m vs of Inl e \<Rightarrow> Inl e | Inr m' \<Rightarrow> updates m' ws)"
  by (induction vs arbitrary: m) (auto split: sum.splits)

lemma evict_window:
  assumes "0 < n"
  shows "(let h = drop (length vs - n) vs @ [v] in if length h > n then drop 1 h else h)
         = drop (length (vs @ [v]) - n) (vs @ [v])"
proof (cases "length vs < n")
  case True
  then show ?thesis by (simp add: Let_def)
next
  case False
  then show ?thesis using assms by (simp add: Let_def Suc_diff_le drop_Suc tl_drop)
qed

lemma window_last:
  assumes "0 < n"
  shows "drop (length (vs @ [v]) - n) (vs @ [v]) \<noteq> []"
    and "last (drop (length (vs @ [v]) - n) (vs @ [v])) = v"
  using assms by simp_all

lemma update_meter_after:
  assumes "1 \<le> len"
  shows "update (meter_after len vs) v = Inr (meter_after len (vs @ [v]))"
proof -
  define n where "n = nat len"
  define w where "w = drop (length (vs @ [v]) - n) (vs @ [v])"
  have n: "0 < n" and len: "len = int n"
    using assms by (simp_all add: n_def)
  have "update (meter_after len vs) v =
        (let h' = (let h = drop (length vs - n) vs @ [v]
                   in if length h > n then drop 1 h else h)
         in if h' = [] then Inl IndexError
            else Inr ((meter_after len vs)\<lparr>history := h', val := last h', avg := np_mean h'\<rparr>))"
    by (simp add: update_def meter_after_def Let_def len)
  also have "\<dots> = (if w = [] then Inl IndexError
       else Inr ((meter_after len vs)\<lparr>history := w, val := last w, avg := np_mean w\<rparr>))"
    unfolding evict_window [OF n] w_def by (simp only: Let_def)
  also have "\<dots> = Inr ((meter_after len vs)\<lparr>history := w, val := v, avg := np_mean w\<rparr>)"
    using window_last [OF n, of vs v] by (simp add: w_def)
  also have "\<dots> = Inr (meter_after len (vs @ [v]))"
    by (simp add: meter_after_def w_def n_def)
  finally show ?thesis .
qed

lemma updates_meter_after:
  assumes "1 \<le> len"
  shows "updates (AverageMeter len) vs = Inr (meter_after len vs)"
proof (induction vs rule: rev_induct)
  case Nil
  show ?case by (simp add: AverageMeter_def reset_def meter_after_def)
next
  case (snoc v vs)
  then show ?case
    using update_meter_after [OF assms] by (simp add: updates_append)
qed

lemma update_preserves_bound:
  assumes "int (length (history m)) \<le> meter_length m" and "update m v = Inr m'"
  shows "int (length (history m')) \<le> meter_length m' \<and> meter_length m' = meter_length m"
  using assms by (auto simp: update_def Let_def split: if_splits)

text \<open>
  Claim C8. A meter built with \<open>length \<ge> 1\<close> and then updated \<open>length + k\<close> times
  accepts every update, retains exactly \<open>length\<close> entries, namely the last \<open>length\<close>
  values pushed, has \<open>val\<close> equal to the last value pushed and \<open>avg\<close> equal to the
  mean of the last \<open>length\<close> values; after each of the updates on the way the history
  holds at most \<open>length\<close> entries.
\<close>

theorem AverageMeter_window:
  assumes "1 \<le> len" and "length vs = nat len + k"
  shows "(\<exists>m. updates (AverageMeter len) vs = Inr m
            \<and> length (history m) = nat len
            \<and> history m = drop k vs
            \<and> val m = last vs
            \<and> avg m = np_mean (drop k vs))
       \<and> (\<forall>j\<le>length vs. \<exists>mj. updates (AverageMeter len) (take j vs) = Inr mj
            \<and> int (length (history mj)) \<le> len)"
proof (intro conjI allI impI)
  have k: "length vs - nat len = k" and ne: "vs \<noteq> []"
    using assms by auto
  show "\<exists>m. updates (AverageMeter len) vs = Inr m
            \<and> length (history m) = nat len
            \<and> history m = drop k vs
            \<and> val m = last vs
            \<and> avg m = np_mean (drop k vs)"
    using assms(2) ne by (simp add: updates_meter_after [OF assms(1)] meter_after_def k)
next
  fix j assume "j \<le> length vs"
  have "int (length (history (meter_after len (take j vs)))) \<le> len"
    using assms(1) by (simp add: meter_after_def)
  then show "\<exists>mj. updates (AverageMeter len) (take j vs) = Inr mj
            \<and> int (length (history mj)) \<le> len"
    by (simp add: updates_meter_after [OF assms(1)])
qed

theorem AverageMeter_window_witness:
  "1 \<le> (2::int) \<and> length [1, 5, 3 :: real] = nat 2 + 1
   \<and> (\<exists>m. updates (AverageMeter 2) [1, 5, 3] = Inr m
          \<and> length (history m) = 2 \<and> history m = [5, 3] \<and> val m = 3 \<and> avg m = 4)
   \<and> (\<exists>m. updates (AverageMeter 2) [1] = Inr m \<and> int (length (history m)) \<le> 2)"
proof -
  have h1: "1 \<le> (2::int)" and h2: "length [1, 5, 3 :: real] = nat 2 + 1"
    by simp_all
  have h3: "(1::nat) \<le> length [1, 5, 3 :: real]"
    by simp
  from AverageMeter_window [OF h1 h2] h3 show ?thesis
    by (auto simp: np_mean_def)
qed

subsection \<open>normalize and the axis check\<close>

lemma normalize_other_axis:
  "axis \<noteq> 0 \<Longrightarrow> axis \<noteq> 1 \<Longrightarrow> normalize (Arr2 n d xs) axis = Inr None"
  by (simp add: normalize_def)

lemma normalize_never_raises: "normalize feat axis \<noteq> Inl e"
  by (simp add: normalize_def)

lemma normalize_flat_ignores_axis: "normalize (Arr1 xs) axis = normalize (Arr1 xs) axis'"
  by (simp add: normalize_def)

lemma normalize_rows_example:
  "normalize (Arr2 1 2 [3, 4]) 1 = Inr (Some (Arr2 1 2 [3 / 5, 4 / 5]))"
proof -
  have "sqrt 25 = sqrt (5 * 5)" by simp
  then have "sqrt 25 = 5" by (simp only: real_sqrt_mult_self) simp
  then show ?thesis
    by (simp add: normalize_def divide_rows_def np_linalg_norm_def row_def upt_rec)
qed

text \<open>
  Claim C9 says that \<open>normalize\<close> fails with a type error for a 2-D input and an axis
  other than 0 and 1. The code has no such branch: on the 1 by 2 matrix \<open>[[3, 4]]\<close> with
  axis 2 it returns \<^verbatim>\<open>None\<close> and raises nothing. The \<^verbatim>\<open>raise TypeError\<close> about the axis
  value stands in \<open>save_imgs\<close> instead.
\<close>

theorem normalize_axis_2_returns_None:
  "normalize (Arr2 1 2 [3, 4]) 2 = Inr None"
  by (simp add: normalize_def)

subsection \<open>save_imgs never returns\<close>

lemma save_imgs_always_raises: "\<exists>e. fst (save_imgs fs imgs ofolder) = Inl e"
  by (simp add: save_imgs_def split: prod.splits sum.splits)

text \<open>
  Claim C10 says that \<open>save_imgs\<close> completes successfully for every non-empty list of
  images. On the one-image list \<open>[img]\<close>, the folder \<open>out\<close> and an empty file system, the
  code makes the folder, writes \<open>out/0.jpg\<close> and then raises NameError from the
  \<^verbatim>\<open>else\<close> clause of its loop.
\<close>

theorem save_imgs_one_image_raises:
  "save_imgs \<lparr>dirs = {}, files = Map.empty\<rparr> [img] ''out'' =
     (Inl (NameError ''axis''), \<lparr>dirs = {''out''}, files = [''out/0.jpg'' \<mapsto> img]\<rparr>)"
  by (simp add: save_imgs_def os_path_join_def str_of_nat.simps os_path_dirname_def
      rstrip_sep_def os_path_exists_def os_makedirs_def img_save_def)

subsection \<open>Feature files: writing and reading back\<close>

lemma bytes_to_word_to_bytes_take:
  "(bytes_to_word (word_to_bytes k w) :: 'a::len word) = take_bit (8 * k) (w :: 'a word)"
proof (induction k arbitrary: w)
  case 0
  show ?case by simp
next
  case (Suc k)
  show ?case
    apply (simp add: Suc)
    apply (rule bit_eqI)
    apply (auto simp add: bit_simps)
    done
qed

lemma length_word_to_bytes: "length (word_to_bytes k w) = k"
  by (induction k arbitrary: w) simp_all

lemma bytes_roundtrip:
  "(bytes_to_word (word_to_bytes (itemsize w) w) :: 'a::len word) = (w :: 'a word)"
proof -
  have "LENGTH('a) \<le> 8 * itemsize w"
    by (simp add: itemsize_def)
  then show ?thesis
    by (simp add: bytes_to_word_to_bytes_take take_bit_word_eq_self)
qed

lemma chunk_concat:
  assumes "\<And>x. length (f x) = sz" and "i < length xs"
  shows "take sz (drop (i * sz) (concat (map f xs))) = f (xs ! i)"
  using assms(2)
proof (induction xs arbitrary: i)
  case Nil
  then show ?case by simp
next
  case (Cons x xs)
  show ?case
  proof (cases i)
    case 0
    then show ?thesis using assms(1) [of x] by simp
  next
    case (Suc j)
    with Cons have "take sz (drop (j * sz) (concat (map f xs))) = f (xs ! j)"
      by simp
    then show ?thesis using assms(1) [of x] Suc by (simp add: add.commute)
  qed
qed


lemma length_concat_fixed:
  assumes "\<And>x. length (f x) = sz"
  shows "length (concat (map f xs)) = length xs * sz"
  by (induction xs) (simp_all add: assms)

lemma itemsize_pos: "0 < itemsize w"
proof -
  have "8 \<le> LENGTH('a) + 7"
    using len_gt_0 [where 'a = 'a] by linarith
  then show "0 < itemsize (w :: 'a::len word)"
    by (simp add: itemsize_def div_greater_zero_iff)
qed

lemma length_read_items: "length (read_items num bs :: 'a::len word list) = num"
  by (simp add: read_items_def Let_def)

lemma read_items_tofile:
  fixes xs :: "'a::len word list"
  assumes "num \<le> length xs"
  shows "read_items num (concat (map (\<lambda>w. word_to_bytes (itemsize w) w) xs)) = take num xs"
proof -
  define sz where "sz = itemsize (0 :: 'a word)"
  define f where "f = (\<lambda>w :: 'a word. word_to_bytes (itemsize w) w)"
  have len: "\<And>x. length (f x) = sz"
    by (simp add: f_def length_word_to_bytes sz_def itemsize_def)
  have dec: "bytes_to_word (take sz (drop (i * sz) (concat (map f xs)))) = xs ! i"
    if "i < length xs" for i
    using chunk_concat [of f sz i xs, OF len that] by (simp add: f_def bytes_roundtrip)
  have "map (\<lambda>i. bytes_to_word (take sz (drop (i * sz) (concat (map f xs))))) [0..<num]
        = map (\<lambda>i. xs ! i) [0..<num]"
    using assms by (intro map_cong) (simp_all add: dec)
  also have "\<dots> = take num xs"
    using assms by (intro nth_equalityI) simp_all
  finally show ?thesis
    by (simp add: read_items_def Let_def sz_def [symmetric] f_def [symmetric])
qed

lemma tofile_avail:
  fixes xs :: "'a::len word list"
  shows "length (concat (map (\<lambda>w. word_to_bytes (itemsize w) w) xs)) div itemsize (0 :: 'a word)
         = length xs"
proof -
  define sz where "sz = itemsize (0 :: 'a word)"
  define f where "f = (\<lambda>w :: 'a word. word_to_bytes (itemsize w) w)"
  have sz: "0 < sz" by (simp add: sz_def itemsize_pos)
  have len: "\<And>x. length (f x) = sz"
    by (simp add: f_def length_word_to_bytes sz_def itemsize_def)
  show ?thesis
    using sz by (simp add: length_concat_fixed [of f sz, OF len]
        sz_def [symmetric] f_def [symmetric])
qed

lemma count_within:
  fixes c :: int
  assumes "0 \<le> c" and "c * int (itemsize w) \<le> ssize_max"
  shows "c \<le> ssize_max"
proof -
  have "1 \<le> int (itemsize w)"
    using itemsize_pos [of w] by simp
  then have "c * 1 \<le> c * int (itemsize w)"
    using assms(1) by (intro mult_left_mono) simp_all
  with assms(2) show ?thesis by simp
qed

lemma fromfile_tofile:
  fixes a :: "'a::len word ndarray"
  assumes "0 \<le> count" and "count * int (itemsize (0 :: 'a word)) \<le> ssize_max"
  shows "np_fromfile (ndarray_tofile fs p a) p count = Inr (Arr1 (take (nat count) (elements a)))"
proof -
  let ?bs = "concat (map (\<lambda>w :: 'a word. word_to_bytes (itemsize w) w) (elements a))"
  have rng: "\<not> (count < - ssize_max - 1 \<or> ssize_max < count)"
    using assms count_within [OF assms] by (simp add: ssize_max_def)
  have "read_items (min (nat count) (length (elements a))) ?bs
        = take (min (nat count) (length (elements a))) (elements a)"
    by (rule read_items_tofile) simp
  also have "\<dots> = take (nat count) (elements a)"
    by (simp add: min_def)
  finally have items: "read_items (min (nat count) (length (elements a))) ?bs
        = take (nat count) (elements a)" .
  show ?thesis
    using assms rng items
    by (simp add: np_fromfile_def ndarray_tofile_def Let_def tofile_avail)
qed

text \<open>
  Claim C1. A matrix of shape \<open>(n, d)\<close> with \<open>n > 0\<close> and \<open>d > 1\<close>, written with
  \<open>write_feat\<close> and read back from the same path with \<open>read_feat\<close>, the same \<open>n\<close>, \<open>d\<close>
  and element type, is returned unchanged: the same shape and the same elements, bit
  for bit. A matrix is an array that numpy holds, so its bytes number no more than the
  greatest \<^verbatim>\<open>ssize_t\<close>.
\<close>

theorem feat_roundtrip:
  fixes xs :: "'a::len word list"
  assumes "0 < n" and "1 < d" and "length xs = n * d"
    and "int (n * d * itemsize (0 :: 'a word)) \<le> ssize_max"
  shows "read_feat (write_feat fs path (Arr2 n d xs)) path (int n) (int d)
         = Inr (Arr2 n d xs)"
proof -
  have c0: "0 \<le> int n * int d"
    by simp
  have c1: "int n * int d * int (itemsize (0 :: 'a word)) \<le> ssize_max"
    using assms(4) by simp
  have c2: "int n * int d \<le> ssize_max"
    using c0 c1 by (rule count_within)
  have "int n * 1 \<le> int n * int d" and "1 * int d \<le> int n * int d"
    using assms(1,2) by (simp_all add: mult_le_mono)
  then have dims: "int n \<le> ssize_max" "int d \<le> ssize_max"
    using c2 by simp_all
  have "np_fromfile (ndarray_tofile fs path (Arr2 n d xs)) path (int n * int d)
        = Inr (Arr1 (take (nat (int n * int d)) xs))"
    using fromfile_tofile [OF c0 c1, of fs path "Arr2 n d xs"] by simp
  also have "take (nat (int n * int d)) xs = xs"
    using assms(3) by (simp add: nat_mult_distrib)
  finally have "np_fromfile (ndarray_tofile fs path (Arr2 n d xs)) path (int n * int d)
        = Inr (Arr1 xs)" .
  then show ?thesis
    using assms(1-3) dims
    by (simp add: read_feat_def write_feat_def reshape_def Let_def ssize_max_def)
qed

theorem feat_roundtrip_witness:
  "(0::nat) < 2 \<and> (1::nat) < 2 \<and> length [1, 2, 3, 4 :: 32 word] = 2 * 2
   \<and> int (2 * 2 * itemsize (0 :: 32 word)) \<le> ssize_max
   \<and> read_feat (write_feat \<lparr>dirs = {}, files = Map.empty\<rparr> ''feat.bin''
         (Arr2 2 2 [1, 2, 3, 4 :: 32 word])) ''feat.bin'' 2 2
       = Inr (Arr2 2 2 [1, 2, 3, 4 :: 32 word])"
proof -
  have h: "int (2 * 2 * itemsize (0 :: 32 word)) \<le> ssize_max"
    by (simp add: itemsize_def ssize_max_def)
  from feat_roundtrip [of 2 2 "[1, 2, 3, 4 :: 32 word]", OF _ _ _ h,
      of "\<lparr>dirs = {}, files = Map.empty\<rparr>" "''feat.bin''"] h
  show ?thesis by simp
qed

lemma read_feat_count_too_large:
  fixes fs :: "byte list filesystem"
  assumes "0 < inst_num" and "0 < feat_dim"
    and "ssize_max < inst_num * feat_dim * int (itemsize (0 :: 'a::len word))"
  shows "\<exists>e. read_feat fs path inst_num feat_dim = (Inl e :: py_error + 'a word ndarray)"
proof -
  have "0 \<le> inst_num * feat_dim"
    using assms(1,2) by simp
  then show ?thesis
    using assms
    by (auto simp add: read_feat_def np_fromfile_def Let_def split: option.splits)
qed

lemma read_feat_short_within:
  fixes fs :: "byte list filesystem"
  assumes "files fs path = Some bs" and "0 < inst_num" and "0 < feat_dim"
    and "int (length bs div itemsize (0 :: 'a::len word)) < inst_num * feat_dim"
    and "inst_num * feat_dim * int (itemsize (0 :: 'a word)) \<le> ssize_max"
  shows "read_feat fs path inst_num feat_dim =
           (if 1 < feat_dim then Inl (ValueError ''cannot reshape array'')
            else Inr (Arr1 (read_items (length bs div itemsize (0 :: 'a word)) bs
                            :: 'a word list)))"
proof -
  define avail where "avail = length bs div itemsize (0 :: 'a word)"
  define c where "c = inst_num * feat_dim"
  have c0: "0 \<le> c" and cpos: "0 < c"
    using assms(2,3) by (simp_all add: c_def)
  have c2: "c \<le> ssize_max"
    using c0 assms(5) unfolding c_def [symmetric] by (rule count_within)
  have "inst_num * 1 \<le> inst_num * feat_dim" and "1 * feat_dim \<le> inst_num * feat_dim"
    using assms(2,3) by (simp_all add: mult_le_cancel_left1 mult_le_cancel_right1)
  then have dims: "inst_num \<le> ssize_max" "feat_dim \<le> ssize_max"
    using c2 by (simp_all add: c_def)
  have lt: "int avail < c"
    using assms(4) by (simp add: avail_def c_def)
  then have m: "min (nat c) avail = avail"
    by linarith
  have rd: "np_fromfile fs path c = (Inr (Arr1 (read_items avail bs)) :: py_error + 'a word ndarray)"
    using assms(1,5) c0 c2 m
    by (simp add: np_fromfile_def Let_def avail_def [symmetric] c_def [symmetric] ssize_max_def)
  have ne: "c \<noteq> int avail"
    using lt by simp
  show ?thesis
  proof (cases "1 < feat_dim")
    case True
    have "reshape (Arr1 (read_items avail bs :: 'a word list)) inst_num feat_dim
          = Inl (ValueError ''cannot reshape array'')"
      using assms(2,3) dims ne
      by (simp add: reshape_def Let_def length_read_items c_def ssize_max_def)
    then show ?thesis
      using True assms(2,3) rd
      by (simp add: read_feat_def Let_def c_def [symmetric])
  next
    case False
    then show ?thesis
      using assms(2,3) rd
      by (simp add: read_feat_def Let_def c_def [symmetric] avail_def)
  qed
qed

text \<open>
  The count is converted to \<^verbatim>\<open>ssize_t\<close> first: with \<open>inst_num = 2 ^ 63\<close> the call fails
  with OverflowError, whatever the file holds.
\<close>

lemma read_feat_count_overflow_example:
  "read_feat \<lparr>dirs = {}, files = [''f'' \<mapsto> [1, 0, 0, 0, 2, 0, 0, 0]]\<rparr> ''f'' (2 ^ 63) 1
   = (Inl (OverflowError ''count'') :: py_error + 32 word ndarray)"
  by (simp add: read_feat_def np_fromfile_def ssize_max_def)

text \<open>
  Claim C6 says that \<open>read_feat\<close> fails whenever the file holds fewer elements than
  \<open>inst_num * feat_dim\<close>. With \<open>feat_dim = 1\<close> nothing checks the number of elements read:
  a file of two float32 elements read with \<open>inst_num = 3\<close> gives the two elements.
\<close>

theorem read_feat_short_flat_returns:
  "int (length [1, 0, 0, 0, 2, 0, 0, 0 :: byte] div itemsize (0 :: 32 word)) < 3 * 1
   \<and> read_feat \<lparr>dirs = {}, files = [''f'' \<mapsto> [1, 0, 0, 0, 2, 0, 0, 0]]\<rparr> ''f'' 3 1
   = (Inr (Arr1 [1, 2]) :: py_error + 32 word ndarray)"
  by (simp add: read_feat_def np_fromfile_def read_items_def itemsize_def ssize_max_def
      Let_def upt_rec)

text \<open>
  Claim C6, amended. Let the file hold fewer elements than \<open>inst_num * feat_dim\<close>, with
  \<open>inst_num > 0\<close>. For \<open>feat_dim > 1\<close> the call fails; while the bytes asked for are
  within numpy's limit, the failure is the ValueError of \<^verbatim>\<open>reshape\<close>. For \<open>feat_dim = 1\<close>
  and the bytes asked for within the limit, the call does not fail: it returns the flat
  vector of the whole elements that the file holds, in the order of the file. When the
  bytes asked for exceed the limit, the call fails for every \<open>feat_dim\<close>.
\<close>

theorem read_feat_short_file:
  fixes fs :: "byte list filesystem"
  assumes "files fs path = Some bs" and "0 < inst_num" and "0 < feat_dim"
    and "int (length bs div itemsize (0 :: 'a::len word)) < inst_num * feat_dim"
  shows "(1 < feat_dim \<longrightarrow>
            (\<exists>e. read_feat fs path inst_num feat_dim = (Inl e :: py_error + 'a word ndarray))
          \<and> (inst_num * feat_dim * int (itemsize (0 :: 'a word)) \<le> ssize_max \<longrightarrow>
               read_feat fs path inst_num feat_dim
               = (Inl (ValueError ''cannot reshape array'') :: py_error + 'a word ndarray)))
       \<and> (feat_dim = 1 \<and> inst_num * int (itemsize (0 :: 'a word)) \<le> ssize_max \<longrightarrow>
            read_feat fs path inst_num feat_dim
            = Inr (Arr1 (read_items (length bs div itemsize (0 :: 'a word)) bs :: 'a word list)))
       \<and> (ssize_max < inst_num * feat_dim * int (itemsize (0 :: 'a word)) \<longrightarrow>
            (\<exists>e. read_feat fs path inst_num feat_dim = (Inl e :: py_error + 'a word ndarray)))"
proof (intro conjI impI)
  assume big: "ssize_max < inst_num * feat_dim * int (itemsize (0 :: 'a word))"
  show "\<exists>e. read_feat fs path inst_num feat_dim = (Inl e :: py_error + 'a word ndarray)"
    using assms(2,3) big by (rule read_feat_count_too_large)
next
  assume d: "1 < feat_dim"
    and ok: "inst_num * feat_dim * int (itemsize (0 :: 'a word)) \<le> ssize_max"
  show "read_feat fs path inst_num feat_dim
        = (Inl (ValueError ''cannot reshape array'') :: py_error + 'a word ndarray)"
    using read_feat_short_within [OF assms ok] d by simp
next
  assume d: "1 < feat_dim"
  show "\<exists>e. read_feat fs path inst_num feat_dim = (Inl e :: py_error + 'a word ndarray)"
  proof (cases "inst_num * feat_dim * int (itemsize (0 :: 'a word)) \<le> ssize_max")
    case True
    then show ?thesis
      using read_feat_short_within [OF assms True] d by simp
  next
    case False
    then have "ssize_max < inst_num * feat_dim * int (itemsize (0 :: 'a word))"
      by simp
    with assms(2,3) show ?thesis
      by (rule read_feat_count_too_large)
  qed
next
  assume flat: "feat_dim = 1 \<and> inst_num * int (itemsize (0 :: 'a word)) \<le> ssize_max"
  then have ok: "inst_num * feat_dim * int (itemsize (0 :: 'a word)) \<le> ssize_max"
    by simp
  show "read_feat fs path inst_num feat_dim
        = Inr (Arr1 (read_items (length bs div itemsize (0 :: 'a word)) bs :: 'a word list))"
    using read_feat_short_within [OF assms ok] flat by simp
qed

theorem read_feat_short_file_witness:
  "files \<lparr>dirs = {}, files = [''f'' \<mapsto> [1, 0, 0, 0, 2, 0, 0, 0 :: byte]]\<rparr> ''f''
      = Some [1, 0, 0, 0, 2, 0, 0, 0]
   \<and> (0::int) < 3 \<and> (0::int) < 2 \<and> (0::int) < 1 \<and> (1::int) < 2
   \<and> int (length [1, 0, 0, 0, 2, 0, 0, 0 :: byte] div itemsize (0 :: 32 word)) < 3 * 2
   \<and> int (length [1, 0, 0, 0, 2, 0, 0, 0 :: byte] div itemsize (0 :: 32 word)) < 3 * 1
   \<and> int (length [1, 0, 0, 0, 2, 0, 0, 0 :: byte] div itemsize (0 :: 32 word)) < 2 ^ 62 * 2
   \<and> 3 * 2 * int (itemsize (0 :: 32 word)) \<le> ssize_max
   \<and> 3 * int (itemsize (0 :: 32 word)) \<le> ssize_max
   \<and> ssize_max < 2 ^ 62 * 2 * int (itemsize (0 :: 32 word))
   \<and> read_feat \<lparr>dirs = {}, files = [''f'' \<mapsto> [1, 0, 0, 0, 2, 0, 0, 0]]\<rparr> ''f'' 3 2
        = (Inl (ValueError ''cannot reshape array'') :: py_error + 32 word ndarray)
   \<and> read_feat \<lparr>dirs = {}, files = [''f'' \<mapsto> [1, 0, 0, 0, 2, 0, 0, 0]]\<rparr> ''f'' 3 1
        = (Inr (Arr1 [1, 2]) :: py_error + 32 word ndarray)
   \<and> (\<exists>e. read_feat \<lparr>dirs = {}, files = [''f'' \<mapsto> [1, 0, 0, 0, 2, 0, 0, 0]]\<rparr> ''f''
          (2 ^ 62) 2 = (Inl e :: py_error + 32 word ndarray))"
proof -
  let ?bs = "[1, 0, 0, 0, 2, 0, 0, 0 :: byte]"
  let ?fs = "\<lparr>dirs = {}, files = [''f'' \<mapsto> ?bs]\<rparr>"
  have f: "files ?fs ''f'' = Some ?bs"
    by simp
  have h2: "int (length ?bs div itemsize (0 :: 32 word)) < 3 * 2"
    and h1: "int (length ?bs div itemsize (0 :: 32 word)) < 3 * 1"
    and h3: "int (length ?bs div itemsize (0 :: 32 word)) < 2 ^ 62 * 2"
    by (simp_all add: itemsize_def)
  have b2: "3 * 2 * int (itemsize (0 :: 32 word)) \<le> ssize_max"
    and b1: "3 * int (itemsize (0 :: 32 word)) \<le> ssize_max"
    and b3: "ssize_max < 2 ^ 62 * 2 * int (itemsize (0 :: 32 word))"
    by (simp_all add: itemsize_def ssize_max_def)
  have items: "(read_items (length ?bs div itemsize (0 :: 32 word)) ?bs :: 32 word list) = [1, 2]"
    by (simp add: read_items_def itemsize_def Let_def upt_rec)
  note t2 = read_feat_short_file [where 'a = 32, OF f _ _ h2]
  note t1 = read_feat_short_file [where 'a = 32, OF f _ _ h1]
  note t3 = read_feat_short_file [where 'a = 32, OF f _ _ h3]
  have a: "read_feat ?fs ''f'' 3 2
        = (Inl (ValueError ''cannot reshape array'') :: py_error + 32 word ndarray)"
    using t2 b2 by simp
  have b: "read_feat ?fs ''f'' 3 1 = (Inr (Arr1 [1, 2]) :: py_error + 32 word ndarray)"
    using t1 b1 items by simp
  have c: "\<exists>e. read_feat ?fs ''f'' (2 ^ 62) 2 = (Inl e :: py_error + 32 word ndarray)"
    using t3 b3 by simp
  show ?thesis
    using f h1 h2 h3 b1 b2 b3 a b c by simp
qed

subsection \<open>Checkpoints: dropping the ignored parameters\<close>

lemma dict_getitem_present:
  "k \<in> set (dict_keys d) \<Longrightarrow> \<exists>v. dict_getitem d k = Inr v"
  by (cases "map_of d k") (auto simp: dict_getitem_def dict_keys_def map_of_eq_None_iff)

lemma dict_keys_filter:
  "set (dict_keys (filter (\<lambda>kv. fst kv \<noteq> k) d)) = set (dict_keys d) - {k}"
  by (auto simp: dict_keys_def)

lemma load_drop_ignores_present:
  assumes "distinct ignores" and "set ignores \<subseteq> set keys"
    and "set ignores \<subseteq> set (dict_keys sd)"
  shows "load_drop_ignores keys ignores sd = Inr (filter (\<lambda>kv. fst kv \<notin> set ignores) sd)"
  using assms
proof (induction ignores arbitrary: sd)
  case Nil
  then show ?case by simp
next
  case (Cons ig igs)
  let ?sd' = "filter (\<lambda>kv. fst kv \<noteq> ig) sd"
  have del: "dict_delitem sd ig = Inr ?sd'"
    using Cons.prems by (simp add: dict_delitem_def)
  have "set igs \<subseteq> set (dict_keys ?sd')"
    using Cons.prems by (auto simp: dict_keys_filter)
  with Cons have "load_drop_ignores keys igs ?sd' = Inr (filter (\<lambda>kv. fst kv \<notin> set igs) ?sd')"
    by simp
  moreover have "filter (\<lambda>kv. fst kv \<notin> set igs) ?sd' = filter (\<lambda>kv. fst kv \<notin> set (ig # igs)) sd"
    by (auto intro: filter_cong)
  ultimately show ?case
    using Cons.prems del by simp
qed

lemma simplify_drop_ignores_present:
  assumes "distinct ignores" and "set ignores \<subseteq> set keys"
    and "set ignores \<subseteq> set (dict_keys sd)"
  shows "simplify_drop_ignores keys ignores sd = Inr (filter (\<lambda>kv. fst kv \<notin> set ignores) sd)"
  using assms
proof (induction ignores arbitrary: sd)
  case Nil
  then show ?case by simp
next
  case (Cons ig igs)
  let ?sd' = "filter (\<lambda>kv. fst kv \<noteq> ig) sd"
  have del: "dict_delitem sd ig = Inr ?sd'"
    using Cons.prems by (simp add: dict_delitem_def)
  have "set igs \<subseteq> set (dict_keys ?sd')"
    using Cons.prems by (auto simp: dict_keys_filter)
  with Cons have "simplify_drop_ignores keys igs ?sd' = Inr (filter (\<lambda>kv. fst kv \<notin> set igs) ?sd')"
    by simp
  moreover have "filter (\<lambda>kv. fst kv \<notin> set igs) ?sd' = filter (\<lambda>kv. fst kv \<notin> set (ig # igs)) sd"
    by (auto intro: filter_cong)
  ultimately show ?case
    using Cons.prems del by simp
qed

lemma load_drop_ignores_missing:
  assumes "distinct pre" and "set pre \<subseteq> set keys" and "set pre \<subseteq> set (dict_keys sd)"
    and "x \<notin> set keys"
  shows "load_drop_ignores keys (pre @ x # post) sd = Inl (ValueError (not_found_message x))"
  using assms
proof (induction pre arbitrary: sd)
  case Nil
  then show ?case by simp
next
  case (Cons ig igs)
  let ?sd' = "filter (\<lambda>kv. fst kv \<noteq> ig) sd"
  have del: "dict_delitem sd ig = Inr ?sd'"
    using Cons.prems by (simp add: dict_delitem_def)
  have "set igs \<subseteq> set (dict_keys ?sd')"
    using Cons.prems by (auto simp: dict_keys_filter)
  with Cons have "load_drop_ignores keys (igs @ x # post) ?sd' = Inl (ValueError (not_found_message x))"
    by simp
  then show ?case
    using Cons.prems del by simp
qed

lemma simplify_drop_ignores_missing_fails:
  fixes sd :: "(string, 't) dict"
  assumes "\<not> set ignores \<subseteq> set keys"
  shows "\<exists>e. simplify_drop_ignores keys ignores sd = Inl e"
  using assms
proof (induction ignores arbitrary: sd)
  case Nil
  then show ?case by simp
next
  case (Cons ig igs)
  show ?case
  proof (cases "ig \<in> set keys")
    case True
    with Cons.prems have "\<not> set igs \<subseteq> set keys" by simp
    then have "\<exists>e. simplify_drop_ignores keys igs sd' = Inl e"
      for sd' :: "(string, 't) dict"
      by (rule Cons.IH)
    then show ?thesis using True by (auto split: sum.splits)
  next
    case False
    then show ?thesis by (auto split: sum.splits)
  qed
qed

subsection \<open>Checkpoints: what simplify_ckpt writes\<close>

lemma strip_keys_filter:
  assumes "distinct ks" and "set ks \<subseteq> set (dict_keys ck)"
  shows "strip_keys ks ck = Inr (filter (\<lambda>kv. fst kv = ''state_dict'' \<or> fst kv \<notin> set ks) ck)"
  using assms
proof (induction ks arbitrary: ck)
  case Nil
  then show ?case by simp
next
  case (Cons k ks)
  show ?case
  proof (cases "k = ''state_dict''")
    case True
    have "filter (\<lambda>kv. fst kv = ''state_dict'' \<or> fst kv \<notin> set ks) ck
        = filter (\<lambda>kv. fst kv = ''state_dict'' \<or> fst kv \<notin> set (k # ks)) ck"
      using True by (auto intro: filter_cong)
    then show ?thesis
      using Cons True by simp
  next
    case False
    let ?ck' = "filter (\<lambda>kv. fst kv \<noteq> k) ck"
    have del: "dict_delitem ck k = Inr ?ck'"
      using Cons.prems by (simp add: dict_delitem_def)
    have "set ks \<subseteq> set (dict_keys ?ck')"
      using Cons.prems by (auto simp: dict_keys_filter)
    with Cons have "strip_keys ks ?ck'
        = Inr (filter (\<lambda>kv. fst kv = ''state_dict'' \<or> fst kv \<notin> set ks) ?ck')"
      by simp
    moreover have "filter (\<lambda>kv. fst kv = ''state_dict'' \<or> fst kv \<notin> set ks) ?ck'
        = filter (\<lambda>kv. fst kv = ''state_dict'' \<or> fst kv \<notin> set (k # ks)) ck"
      using False by (auto intro: filter_cong)
    ultimately show ?thesis
      using False del by simp
  qed
qed

lemma filter_key_distinct:
  assumes "distinct (map fst d)" and "map_of d k = Some v"
  shows "filter (\<lambda>kv. fst kv = k) d = [(k, v)]"
  using assms
proof (induction d)
  case Nil
  then show ?case by simp
next
  case (Cons kv d)
  show ?case
  proof (cases "fst kv = k")
    case True
    then have "k \<notin> fst ` set d" using Cons.prems(1) by auto
    then have "filter (\<lambda>kv. fst kv = k) d = []"
      by (auto simp: filter_empty_conv)
    moreover have "kv = (k, v)"
      using True Cons.prems(2) by (cases kv) simp
    ultimately show ?thesis by simp
  next
    case False
    then show ?thesis using Cons by (cases kv) auto
  qed
qed

lemma strip_keys_only_state_dict:
  assumes "distinct (dict_keys ck)" and "map_of ck ''state_dict'' = Some v"
  shows "strip_keys (dict_keys ck) ck = Inr [(''state_dict'', v)]"
proof -
  have "filter (\<lambda>kv. fst kv = ''state_dict'' \<or> fst kv \<notin> set (dict_keys ck)) ck
      = filter (\<lambda>kv. fst kv = ''state_dict'') ck"
    by (auto intro: filter_cong simp: dict_keys_def)
  then show ?thesis
    using strip_keys_filter [OF assms(1) subset_refl]
      filter_key_distinct [of ck "''state_dict''" v] assms
    by (simp add: dict_keys_def)
qed

lemma map_of_setitem:
  assumes "k \<in> set (dict_keys d)"
  shows "map_of (dict_setitem d k v) k = Some v"
proof -
  have "k \<in> fst ` set d \<Longrightarrow> map_of (map (\<lambda>kv. if fst kv = k then (k, v) else kv) d) k = Some v"
    by (induction d) auto
  then show ?thesis
    using assms by (simp add: dict_setitem_def dict_keys_def)
qed

lemma dict_setitem_single: "dict_setitem [(k, v)] k v' = [(k, v')]"
  by (simp add: dict_setitem_def dict_keys_def)

lemma map_of_keys: "map_of d k = Some v \<Longrightarrow> k \<in> set (dict_keys d)"
  by (auto simp: dict_keys_def dest: map_of_SomeD intro: rev_image_eqI)

lemma simplify_ckpt_present:
  assumes "files fs path = Some (Pickled ck)"
    and "distinct (dict_keys ck)"
    and "map_of ck ''state_dict'' = Some (StateDict sd)"
    and "distinct ignores"
    and "set ignores \<subseteq> set (dict_keys sd)"
  shows "simplify_ckpt fs path opath ignores =
           Inr (torch_save fs [(''state_dict'', StateDict (filter (\<lambda>kv. fst kv \<notin> set ignores) sd))]
                  (if opath = [] then path @ ''_simplified'' else opath))"
proof -
  have strip: "strip_keys (dict_keys ck) ck = Inr [(''state_dict'', StateDict sd)]"
    using assms(2,3) by (rule strip_keys_only_state_dict)
  have drop: "simplify_drop_ignores (dict_keys sd) ignores sd
      = Inr (filter (\<lambda>kv. fst kv \<notin> set ignores) sd)"
    using assms(4) assms(5) assms(5) by (rule simplify_drop_ignores_present)
  have block: "simplify_ignores_block [(''state_dict'', StateDict sd)] ignores
      = Inr [(''state_dict'', StateDict (filter (\<lambda>kv. fst kv \<notin> set ignores) sd))]"
    by (simp add: simplify_ignores_block_def dict_getitem_def drop dict_setitem_single)
  show ?thesis
    using assms(1) by (simp add: simplify_ckpt_def os_path_isfile_def torch_load_def strip block)
qed

lemma simplify_ckpt_missing:
  assumes "files fs path = Some (Pickled ck)"
    and "distinct (dict_keys ck)"
    and "map_of ck ''state_dict'' = Some (StateDict sd)"
    and "\<not> set ignores \<subseteq> set (dict_keys sd)"
  shows "\<exists>e. simplify_ckpt fs path opath ignores = Inl e"
proof -
  have strip: "strip_keys (dict_keys ck) ck = Inr [(''state_dict'', StateDict sd)]"
    using assms(2,3) by (rule strip_keys_only_state_dict)
  obtain e where "simplify_drop_ignores (dict_keys sd) ignores sd = Inl e"
    using simplify_drop_ignores_missing_fails [OF assms(4)] by blast
  then have block: "simplify_ignores_block [(''state_dict'', StateDict sd)] ignores = Inl e"
    by (simp add: simplify_ignores_block_def dict_getitem_def)
  show ?thesis
    using assms(1) by (simp add: simplify_ckpt_def os_path_isfile_def torch_load_def strip block)
qed

subsection \<open>Checkpoints: load_ckpt and the ignored parameters\<close>

lemma find_split:
  "find Q xs = Some x \<Longrightarrow> \<exists>post. xs = takeWhile (\<lambda>i. \<not> Q i) xs @ x # post \<and> Q x"
  by (induction xs) (auto split: if_splits)

lemma load_ckpt_after_ignores:
  fixes ck :: "('t, 'o) checkpoint"
  assumes "files fs path = Some (Pickled ck)"
    and "(if length ignores > 0 then load_ignores_block ck ignores (None :: ('p, 't, 'o) optimizer option) else Inr ck) = Inr ck'"
    and "map_of ck' ''state_dict'' = Some (StateDict sd')"
  shows "load_ckpt fs path model ignores strict (None :: ('p, 't, 'o) optimizer option) =
           (case module_load_state_dict model (module_state model) (StateDict sd') strict of
              Inl e \<Rightarrow> Inl e
            | Inr m' \<Rightarrow> Inr (None, model\<lparr>module_state := m'\<rparr>, None))"
  using assms
  by (simp add: load_ckpt_def os_path_isfile_def torch_load_def dict_getitem_def value_keys_def
      split: sum.splits)

lemma load_ckpt_present:
  fixes ck :: "('t, 'o) checkpoint"
  assumes "files fs path = Some (Pickled ck)"
    and "map_of ck ''state_dict'' = Some (StateDict sd)"
    and "distinct ignores"
    and "set ignores \<subseteq> set (dict_keys sd)"
  shows "load_ckpt fs path model ignores strict (None :: ('p, 't, 'o) optimizer option) =
           (case module_load_state_dict model (module_state model)
                   (StateDict (filter (\<lambda>kv. fst kv \<notin> set ignores) sd)) strict of
              Inl e \<Rightarrow> Inl e
            | Inr m' \<Rightarrow> Inr (None, model\<lparr>module_state := m'\<rparr>, None))"
proof (cases "ignores = []")
  case True
  then show ?thesis
    using load_ckpt_after_ignores [OF assms(1), of ignores ck sd model strict] assms(2)
    by simp
next
  case False
  let ?sd' = "filter (\<lambda>kv. fst kv \<notin> set ignores) sd"
  have drop: "load_drop_ignores (dict_keys sd) ignores sd = Inr ?sd'"
    using assms(3) assms(4) assms(4) by (rule load_drop_ignores_present)
  have block: "load_ignores_block ck ignores (None :: ('p, 't, 'o) optimizer option)
      = Inr (dict_setitem ck ''state_dict'' (StateDict ?sd'))"
    using assms(2) by (simp add: load_ignores_block_def dict_getitem_def drop)
  have get: "map_of (dict_setitem ck ''state_dict'' (StateDict ?sd')) ''state_dict''
      = Some (StateDict ?sd')"
    using assms(2) by (intro map_of_setitem map_of_keys)
  show ?thesis
    using load_ckpt_after_ignores [OF assms(1) _ get, of ignores model strict] block False
    by simp
qed

lemma load_ckpt_missing:
  fixes ck :: "('t, 'o) checkpoint"
  assumes "files fs path = Some (Pickled ck)"
    and "map_of ck ''state_dict'' = Some (StateDict sd)"
    and "distinct ignores"
    and "find (\<lambda>i. i \<notin> set (dict_keys sd)) ignores = Some x"
  shows "load_ckpt fs path model ignores strict (None :: ('p, 't, 'o) optimizer option) = Inl (ValueError (not_found_message x))"
proof -
  define pre where "pre = takeWhile (\<lambda>i. i \<in> set (dict_keys sd)) ignores"
  obtain post where split: "ignores = pre @ x # post" and x: "x \<notin> set (dict_keys sd)"
    using find_split [OF assms(4)] by (auto simp: pre_def)
  have pre_keys: "set pre \<subseteq> set (dict_keys sd)"
    unfolding pre_def by (auto dest: set_takeWhileD)
  have dist: "distinct pre"
    using assms(3) split by (metis distinct_append)
  have "load_drop_ignores (dict_keys sd) (pre @ x # post) sd
      = Inl (ValueError (not_found_message x))"
    using dist pre_keys pre_keys x by (rule load_drop_ignores_missing)
  then have block: "load_ignores_block ck ignores (None :: ('p, 't, 'o) optimizer option) = Inl (ValueError (not_found_message x))"
    using assms(2) by (simp add: load_ignores_block_def dict_getitem_def split)
  have "0 < length ignores"
    using split by simp
  then show ?thesis
    using assms(1) block
    by (simp add: load_ckpt_def os_path_isfile_def torch_load_def)
qed

subsection \<open>load_ckpt: optimizer, return value, missing file\<close>

text \<open>
  Claim C2. A call of \<open>load_ckpt\<close> with a non-empty \<open>ignores\<close> and an optimizer fails,
  whatever the path holds; when the path holds a checkpoint that loads, the failure is
  that of the assertion \<^verbatim>\<open>assert optimizer == None\<close>.
\<close>

theorem load_ckpt_ignores_exclude_optimizer:
  assumes "ignores \<noteq> []" and "optimizer \<noteq> None"
  shows "(\<exists>e. load_ckpt fs path model ignores strict optimizer = Inl e)
       \<and> (\<forall>ck. files fs path = Some (Pickled ck) \<longrightarrow>
             load_ckpt fs path model ignores strict optimizer = Inl (AssertionError []))"
proof -
  have block: "load_ignores_block ck ignores optimizer = Inl (AssertionError [])" for ck
    using assms(2) by (simp add: load_ignores_block_def)
  show ?thesis
    using assms(1) block
    by (auto simp: load_ckpt_def os_path_isfile_def torch_load_def
        split: option.splits torch_file.splits)
qed

theorem load_ckpt_ignores_exclude_optimizer_witness:
  "[''fc.weight''] \<noteq> [] \<and> Some sample_optimizer \<noteq> None
   \<and> files sample_fs ''ckpt.pth'' = Some (Pickled sample_ckpt)
   \<and> load_ckpt sample_fs ''ckpt.pth'' sample_model [''fc.weight''] True (Some sample_optimizer)
       = Inl (AssertionError [])"
proof -
  have f: "files sample_fs ''ckpt.pth'' = Some (Pickled sample_ckpt)"
    by (simp add: sample_fs_def)
  have "[''fc.weight''] \<noteq> []" and "Some sample_optimizer \<noteq> None"
    by simp_all
  from load_ckpt_ignores_exclude_optimizer [OF this, of sample_fs "''ckpt.pth''" sample_model True] f
  show ?thesis by simp
qed

text \<open>
  Claim C4. When \<open>load_ckpt\<close> succeeds: if an optimizer was supplied, the value returned
  is the pair of the \<^verbatim>\<open>epoch\<close> and \<^verbatim>\<open>best_prec1\<close> entries of the checkpoint in the file;
  if none was supplied, the value returned is \<^verbatim>\<open>None\<close>. So a pair is returned exactly
  when an optimizer was supplied.
\<close>

theorem load_ckpt_returns_metadata_iff_optimizer:
  assumes "load_ckpt fs path model ignores strict optimizer = Inr (ret, model', optimizer')"
  shows "(optimizer \<noteq> None \<longrightarrow>
            (\<exists>ck epoch best_prec1. files fs path = Some (Pickled ck)
               \<and> map_of ck ''epoch'' = Some epoch
               \<and> map_of ck ''best_prec1'' = Some best_prec1
               \<and> ret = Some (epoch, best_prec1)))
       \<and> (optimizer = None \<longrightarrow> ret = None)"
proof (cases optimizer)
  case None
  with assms show ?thesis
    by (auto simp: load_ckpt_def split: if_splits sum.splits)
next
  case (Some opt)
  from assms obtain ck where ck: "files fs path = Some (Pickled ck)"
    by (auto simp: load_ckpt_def os_path_isfile_def torch_load_def
        split: if_splits option.splits torch_file.splits)
  have nil: "ignores = []"
  proof (rule ccontr)
    assume "ignores \<noteq> []"
    then have "load_ckpt fs path model ignores strict optimizer = Inl (AssertionError [])"
      using ck Some by (simp add: load_ckpt_def os_path_isfile_def torch_load_def
          load_ignores_block_def)
    with assms show False by simp
  qed
  from assms ck Some nil obtain r opt' where
    blk: "load_optimizer_block ck [] opt = Inr (r, opt')" and ret: "ret = Some r"
    by (auto simp: load_ckpt_def os_path_isfile_def torch_load_def split: sum.splits)
  from blk have "\<exists>epoch best_prec1. map_of ck ''epoch'' = Some epoch
      \<and> map_of ck ''best_prec1'' = Some best_prec1 \<and> r = (epoch, best_prec1)"
    by (auto simp: load_optimizer_block_def dict_getitem_def split: sum.splits option.splits)
  then show ?thesis
    using ck ret Some by auto
qed

theorem load_ckpt_returns_metadata_iff_optimizer_witness:
  "load_ckpt sample_fs ''ckpt.pth'' sample_model [] True (Some sample_optimizer)
     = Inr (Some (Other 3, Other 90),
          sample_model\<lparr>module_state := [(''base.weight'', 1), (''fc.weight'', 2)]\<rparr>,
          Some (sample_optimizer\<lparr>optim_state := 7\<rparr>))
   \<and> Some sample_optimizer \<noteq> None
   \<and> (\<exists>ck epoch best_prec1. files sample_fs ''ckpt.pth'' = Some (Pickled ck)
         \<and> map_of ck ''epoch'' = Some epoch \<and> map_of ck ''best_prec1'' = Some best_prec1
         \<and> Some (Other 3, Other 90) = Some (epoch, best_prec1))
   \<and> load_ckpt sample_fs ''ckpt.pth'' sample_model [''fc.weight''] False
        (None :: (int, nat, int) optimizer option)
     = Inr (None, sample_model\<lparr>module_state := [(''base.weight'', 1)]\<rparr>, None)
   \<and> (None :: ((nat, int) ckpt_value \<times> (nat, int) ckpt_value) option) = None"
proof -
  have a: "load_ckpt sample_fs ''ckpt.pth'' sample_model [] True (Some sample_optimizer)
     = Inr (Some (Other 3, Other 90),
          sample_model\<lparr>module_state := [(''base.weight'', 1), (''fc.weight'', 2)]\<rparr>,
          Some (sample_optimizer\<lparr>optim_state := 7\<rparr>))"
    by (simp add: load_ckpt_def sample_fs_def os_path_isfile_def torch_load_def
        load_optimizer_block_def sample_ckpt_def dict_getitem_def sample_model_def
        sample_optimizer_def)
  have b: "load_ckpt sample_fs ''ckpt.pth'' sample_model [''fc.weight''] False
        (None :: (int, nat, int) optimizer option)
     = Inr (None, sample_model\<lparr>module_state := [(''base.weight'', 1)]\<rparr>, None)"
    by (simp add: load_ckpt_def sample_fs_def os_path_isfile_def torch_load_def
        load_ignores_block_def sample_ckpt_def dict_getitem_def sample_model_def dict_keys_def
        dict_delitem_def dict_setitem_def value_keys_def)
  from load_ckpt_returns_metadata_iff_optimizer [OF a]
    load_ckpt_returns_metadata_iff_optimizer [OF b] a b
  show ?thesis by simp
qed

text \<open>
  Claim C5 says that \<open>load_ckpt\<close> fails with a file-not-found error on a path that names
  no file. On \<open>missing.pth\<close> in an empty file system the failure is an AssertionError, from
  \<^verbatim>\<open>assert False\<close>, and no FileNotFoundError.
\<close>

theorem load_ckpt_missing_file_is_assertion:
  "load_ckpt \<lparr>dirs = {}, files = Map.empty\<rparr> ''missing.pth'' sample_model [] True
     (None :: (int, nat, int) optimizer option)
     = Inl (AssertionError (no_checkpoint_message ''missing.pth''))
   \<and> load_ckpt \<lparr>dirs = {}, files = Map.empty\<rparr> ''missing.pth'' sample_model [] True
     (None :: (int, nat, int) optimizer option)
     \<noteq> Inl (FileNotFoundError ''missing.pth'')"
  by (simp add: load_ckpt_def os_path_isfile_def)

text \<open>
  Claim C5, amended. For every path that does not name an existing file, \<open>load_ckpt\<close>
  fails with an assertion error whose message says that no checkpoint was found at the
  path.
\<close>

theorem load_ckpt_no_file:
  assumes "\<not> os_path_isfile fs path"
  shows "load_ckpt fs path model ignores strict optimizer
         = Inl (AssertionError (no_checkpoint_message path))"
  using assms by (simp add: load_ckpt_def)

theorem load_ckpt_no_file_witness:
  "\<not> os_path_isfile sample_fs ''missing.pth''
   \<and> load_ckpt sample_fs ''missing.pth'' sample_model [] True (Some sample_optimizer)
       = Inl (AssertionError (''=> no checkpoint found at '' @ [CHR 0x27] @ ''missing.pth'' @ [CHR 0x27]))"
proof -
  have h: "\<not> os_path_isfile sample_fs ''missing.pth''"
    by (simp add: os_path_isfile_def sample_fs_def)
  from load_ckpt_no_file [OF h, of sample_model "[]" True "Some sample_optimizer"] h
  show ?thesis by (simp add: no_checkpoint_message_def)
qed

subsection \<open>simplify_ckpt: the file written, and a missing ignore name\<close>

text \<open>
  Claim C7. For a checkpoint file whose \<^verbatim>\<open>state_dict\<close> holds every name of the set
  \<open>ignores\<close>, \<open>simplify_ckpt\<close> succeeds and writes a checkpoint whose only key is
  \<^verbatim>\<open>state_dict\<close>, bound to the parameters without the ignored ones; it writes it to
  \<open>opath\<close>, or to \<open>path\<close> followed by \<^verbatim>\<open>_simplified\<close> when \<open>opath\<close> is left empty, and leaves
  every other file as it was. The set \<open>ignores\<close> is a list of distinct names, in the order
  in which the loop visits them.
\<close>

theorem simplify_ckpt_writes_state_dict_only:
  assumes "files fs path = Some (Pickled ck)"
    and "distinct (dict_keys ck)"
    and "map_of ck ''state_dict'' = Some (StateDict sd)"
    and "distinct ignores"
    and "set ignores \<subseteq> set (dict_keys sd)"
  shows "\<exists>fs' written.
           simplify_ckpt fs path opath ignores = Inr fs'
         \<and> files fs' (if opath = [] then path @ ''_simplified'' else opath) = Some (Pickled written)
         \<and> dict_keys written = [''state_dict'']
         \<and> written = [(''state_dict'', StateDict (filter (\<lambda>kv. fst kv \<notin> set ignores) sd))]
         \<and> (\<forall>p. p \<noteq> (if opath = [] then path @ ''_simplified'' else opath) \<longrightarrow>
                files fs' p = files fs p)"
  using simplify_ckpt_present [OF assms, of opath]
  by (simp add: torch_save_def dict_keys_def)

theorem simplify_ckpt_writes_state_dict_only_witness:
  "files sample_fs ''ckpt.pth'' = Some (Pickled sample_ckpt)
   \<and> distinct (dict_keys sample_ckpt)
   \<and> map_of sample_ckpt ''state_dict''
        = Some (StateDict [(''base.weight'', 1), (''fc.weight'', 2)])
   \<and> distinct [''fc.weight'']
   \<and> set [''fc.weight''] \<subseteq> set (dict_keys [(''base.weight'', 1 :: nat), (''fc.weight'', 2)])
   \<and> (\<exists>fs'. simplify_ckpt sample_fs ''ckpt.pth'' [] [''fc.weight''] = Inr fs'
         \<and> files fs' ''ckpt.pth_simplified''
              = Some (Pickled [(''state_dict'', StateDict [(''base.weight'', 1)])])
         \<and> files fs' ''ckpt.pth'' = files sample_fs ''ckpt.pth'')"
proof -
  have h1: "files sample_fs ''ckpt.pth'' = Some (Pickled sample_ckpt)"
    by (simp add: sample_fs_def)
  have h2: "distinct (dict_keys sample_ckpt)"
    by (simp add: sample_ckpt_def dict_keys_def)
  have h3: "map_of sample_ckpt ''state_dict''
        = Some (StateDict [(''base.weight'', 1), (''fc.weight'', 2)])"
    by (simp add: sample_ckpt_def)
  have h4: "distinct [''fc.weight'']"
    by simp
  have h5: "set [''fc.weight''] \<subseteq> set (dict_keys [(''base.weight'', 1 :: nat), (''fc.weight'', 2)])"
    by (simp add: dict_keys_def)
  from simplify_ckpt_writes_state_dict_only [OF h1 h2 h3 h4 h5, of "[]"]
  obtain fs' where "simplify_ckpt sample_fs ''ckpt.pth'' [] [''fc.weight''] = Inr fs'"
    and "files fs' ''ckpt.pth_simplified''
           = Some (Pickled [(''state_dict'', StateDict [(''base.weight'', 1)])])"
    and "\<forall>p. p \<noteq> ''ckpt.pth_simplified'' \<longrightarrow> files fs' p = files sample_fs p"
    by auto
  then have "\<exists>fs'. simplify_ckpt sample_fs ''ckpt.pth'' [] [''fc.weight''] = Inr fs'
         \<and> files fs' ''ckpt.pth_simplified''
              = Some (Pickled [(''state_dict'', StateDict [(''base.weight'', 1)])])
         \<and> files fs' ''ckpt.pth'' = files sample_fs ''ckpt.pth''"
    by auto
  with h1 h2 h3 h4 h5 show ?thesis
    by blast
qed

text \<open>
  A name given twice in \<open>ignores\<close> is deleted twice, and the second deletion raises
  KeyError; a set of names has no such repetition.
\<close>

lemma simplify_ckpt_repeated_name_example:
  "simplify_ckpt sample_fs ''ckpt.pth'' [] [''fc.weight'', ''fc.weight'']
     = Inl (KeyError ''fc.weight'')"
  by (simp add: simplify_ckpt_def sample_fs_def os_path_isfile_def torch_load_def
      simplify_ignores_block_def sample_ckpt_def dict_getitem_def dict_keys_def
      dict_delitem_def)

text \<open>
  Claim C3 says that \<open>load_ckpt\<close> and \<open>simplify_ckpt\<close>, given a set of ignore names of
  which one is no key of \<^verbatim>\<open>state_dict\<close>, fail with an error that names the missing key.
  \<open>load_ckpt\<close> does (lemma \<open>load_ckpt_missing\<close>). \<open>simplify_ckpt\<close> does not: on the sample
  checkpoint, whose parameters are \<open>base.weight\<close> and \<open>fc.weight\<close>, with the ignore names
  \<open>fc.weight\<close> and \<open>missing\<close>, it deletes \<open>fc.weight\<close>, and then the loop that prints the
  shapes before the ValueError reads \<open>fc.weight\<close> again, from the keys taken before the
  deletion, and raises KeyError for it. \<open>load_ckpt\<close>, without an optimizer, raises the
  ValueError that names \<open>missing\<close> on the same names.
\<close>

theorem simplify_ckpt_stale_keys_raise_KeyError:
  "distinct [''fc.weight'', ''missing'']
   \<and> map_of sample_ckpt ''state_dict''
        = Some (StateDict [(''base.weight'', 1), (''fc.weight'', 2)])
   \<and> ''missing'' \<notin> set (dict_keys [(''base.weight'', 1 :: nat), (''fc.weight'', 2)])
   \<and> simplify_ckpt sample_fs ''ckpt.pth'' [] [''fc.weight'', ''missing'']
       = Inl (KeyError ''fc.weight'')
   \<and> load_ckpt sample_fs ''ckpt.pth'' sample_model [''fc.weight'', ''missing''] True
        (None :: (int, nat, int) optimizer option)
       = Inl (ValueError ''cannot find missing in load_path'')"
  by (simp add: simplify_ckpt_def load_ckpt_def sample_fs_def os_path_isfile_def
      torch_load_def simplify_ignores_block_def load_ignores_block_def sample_ckpt_def
      dict_getitem_def dict_keys_def dict_delitem_def not_found_message_def)

end
